theory Spec2Isabelle
  imports Complex_Main "HOL-Library.AList"
begin

section \<open>Data model (packages/core/src/types.ts)\<close>

text \<open>
  JavaScript numbers are modelled as real numbers: the thresholds of the checks are
  comparisons and products of numbers, and the rounding of IEEE doubles is not part of
  the model. A string the code builds with a template literal is kept as the list of its
  parts: literal text, and the numbers that are interpolated into it. \<open>Num x\<close> stands
  for the text JavaScript prints for the number \<open>x\<close> (\<open>Num 2\<close> is the text "2"),
  \<open>Fixed1 x\<close> for \<open>x.toFixed(1)\<close>. Characters outside ASCII are written as their
  UTF-8 bytes. An optional field is an \<open>option\<close>; \<open>None\<close> is \<open>undefined\<close>.
\<close>

datatype piece = Lit string | Num real | Fixed1 real

type_synonym jsstring = "piece list"

datatype WcagLevel = LevelA | LevelAA | LevelAAA

datatype CheckStatus = Pass | Fail | Warning | Info

datatype jsvalue = VStr jsstring | VNum real | VBool bool

datatype error = TypeError

text \<open>
  Several interfaces of the source share field names. The records of the inputs come
  first, so that an unqualified \<open>name\<close>, \<open>level\<close>, \<open>value'\<close>, \<open>summary\<close> or
  \<open>results\<close> is the field of the verdict and of the report; the fields of the other
  records are written with the record's name. The fields \<open>value\<close> and \<open>text\<close> of
  the source are \<open>value'\<close> and \<open>text'\<close>, and \<open>id\<close> is \<open>crit_id\<close>.
\<close>

record WcagCriterion =
  crit_id :: string
  name :: string
  level :: WcagLevel
  description :: string
  url :: string
  category :: "string option"

text \<open>The element type of the array \<open>checks\<close> in \<open>checkTextSpacing\<close>.\<close>

record SpacingCheck =
  name :: string
  value' :: "real option"
  multiplier :: real
  label :: string

record HeadingInput =
  level :: real
  text' :: string
  isFirst :: "bool option"
  previousLevel :: "real option"

record HeadingStructureInput =
  headings :: "HeadingInput list"
  hasH1 :: "bool option"
  h1Count :: "real option"

record Landmark =
  role :: string
  label :: "string option"

record FlashingInput =
  hasFlashing :: bool
  flashesPerSecond :: "real option"
  flashAreaPercent :: "real option"
  isBelowThreshold :: "bool option"

datatype TransactionType = Legal | Financial | DataModification | Test | Other

record FormSubmissionInput =
  transactionType :: TransactionType
  isReversible :: "bool option"
  dataIsChecked :: "bool option"
  canReview :: "bool option"
  requiresConfirmation :: "bool option"

record CheckResult =
  criterion :: string
  name :: string
  level :: WcagLevel
  status :: CheckStatus
  value' :: "jsvalue option"
  required :: "jsvalue option"
  message :: jsstring
  recommendation :: "jsstring option"

text \<open>An element of \<open>MachineReport.results\<close>: the verdict's fields and the URL.\<close>

record MachineResult = CheckResult +
  url :: "string option"

record LevelTally =
  passed :: nat
  failed :: nat

text \<open>
  The summary of the machine report has four counters; \<open>ReportSummary\<close> has the same
  four and the three tallies by level.
\<close>

record MachineSummary =
  total :: nat
  passed :: nat
  failed :: nat
  warnings :: nat

record ReportSummary = MachineSummary +
  levelA :: LevelTally
  levelAA :: LevelTally
  levelAAA :: LevelTally

text \<open>The optional argument \<open>options\<close> of \<open>createReport\<close>.\<close>

record ReportOptions =
  title :: "string option"
  category :: "string option"

record MachineReport =
  wcagVersion :: string
  timestamp :: string
  category :: "string option"
  summary :: MachineSummary
  results :: "MachineResult list"

record ValidationReport =
  summary :: ReportSummary
  results :: "CheckResult list"
  human :: jsstring
  machine :: MachineReport

section \<open>Criteria catalog (packages/core/src/criteria.ts)\<close>

text \<open>The table \<open>WCAG_CRITERIA\<close>, in the order of the source, keyed by criterion id.\<close>

definition WCAG_CRITERIA :: "(string \<times> WcagCriterion) list" where
  \<open>WCAG_CRITERIA = [
  (''1.1.1'', WcagCriterion.make ''1.1.1''
     ''Non-text Content'' LevelA
     ''All non-text content has a text alternative''
     ''https://www.w3.org/TR/WCAG21/#non-text-content''
     (Some ''text-alternatives'')),
  (''1.2.1'', WcagCriterion.make ''1.2.1''
     ''Audio-only and Video-only (Prerecorded)'' LevelA
     ''Alternatives provided for prerecorded audio-only and video-only content''
     ''https://www.w3.org/TR/WCAG21/#audio-only-and-video-only-prerecorded''
     (Some ''media'')),
  (''1.2.2'', WcagCriterion.make ''1.2.2''
     ''Captions (Prerecorded)'' LevelA
     ''Captions provided for prerecorded audio in synchronized media''
     ''https://www.w3.org/TR/WCAG21/#captions-prerecorded''
     (Some ''media'')),
  (''1.2.3'', WcagCriterion.make ''1.2.3''
     ''Audio Description or Media Alternative (Prerecorded)'' LevelA
     ''Audio description or alternative provided for prerecorded video''
     ''https://www.w3.org/TR/WCAG21/#audio-description-or-media-alternative-prerecorded''
     (Some ''media'')),
  (''1.2.4'', WcagCriterion.make ''1.2.4''
     ''Captions (Live)'' LevelAA
     ''Captions provided for live audio in synchronized media''
     ''https://www.w3.org/TR/WCAG21/#captions-live''
     (Some ''media'')),
  (''1.2.5'', WcagCriterion.make ''1.2.5''
     ''Audio Description (Prerecorded)'' LevelAA
     ''Audio description provided for prerecorded video''
     ''https://www.w3.org/TR/WCAG21/#audio-description-prerecorded''
     (Some ''media'')),
  (''1.2.6'', WcagCriterion.make ''1.2.6''
     ''Sign Language (Prerecorded)'' LevelAAA
     ''Sign language interpretation provided for prerecorded audio''
     ''https://www.w3.org/TR/WCAG21/#sign-language-prerecorded''
     (Some ''media'')),
  (''1.2.7'', WcagCriterion.make ''1.2.7''
     ''Extended Audio Description (Prerecorded)'' LevelAAA
     ''Extended audio description provided where pauses are insufficient''
     ''https://www.w3.org/TR/WCAG21/#extended-audio-description-prerecorded''
     (Some ''media'')),
  (''1.2.8'', WcagCriterion.make ''1.2.8''
     ''Media Alternative (Prerecorded)'' LevelAAA
     ''Alternative provided for prerecorded synchronized media''
     ''https://www.w3.org/TR/WCAG21/#media-alternative-prerecorded''
     (Some ''media'')),
  (''1.2.9'', WcagCriterion.make ''1.2.9''
     ''Audio-only (Live)'' LevelAAA
     ''Alternative provided for live audio-only content''
     ''https://www.w3.org/TR/WCAG21/#audio-only-live''
     (Some ''media'')),
  (''1.3.1'', WcagCriterion.make ''1.3.1''
     ''Info and Relationships'' LevelA
     ''Information, structure, and relationships can be programmatically determined''
     ''https://www.w3.org/TR/WCAG21/#info-and-relationships''
     (Some ''structure'')),
  (''1.3.2'', WcagCriterion.make ''1.3.2''
     ''Meaningful Sequence'' LevelA
     ''Correct reading sequence can be programmatically determined''
     ''https://www.w3.org/TR/WCAG21/#meaningful-sequence''
     (Some ''structure'')),
  (''1.3.3'', WcagCriterion.make ''1.3.3''
     ''Sensory Characteristics'' LevelA
     (''Instructions don'' @ [CHR 0x27] @ ''t rely solely on sensory characteristics'')
     ''https://www.w3.org/TR/WCAG21/#sensory-characteristics''
     (Some ''structure'')),
  (''1.3.4'', WcagCriterion.make ''1.3.4''
     ''Orientation'' LevelAA
     ''Content not restricted to a single display orientation''
     ''https://www.w3.org/TR/WCAG21/#orientation''
     (Some ''structure'')),
  (''1.3.5'', WcagCriterion.make ''1.3.5''
     ''Identify Input Purpose'' LevelAA
     ''Input field purpose can be programmatically determined''
     ''https://www.w3.org/TR/WCAG21/#identify-input-purpose''
     (Some ''forms'')),
  (''1.3.6'', WcagCriterion.make ''1.3.6''
     ''Identify Purpose'' LevelAAA
     ''Purpose of UI components can be programmatically determined''
     ''https://www.w3.org/TR/WCAG21/#identify-purpose''
     (Some ''structure'')),
  (''1.4.1'', WcagCriterion.make ''1.4.1''
     ''Use of Color'' LevelA
     ''Color is not the only visual means of conveying information''
     ''https://www.w3.org/TR/WCAG21/#use-of-color''
     (Some ''text'')),
  (''1.4.2'', WcagCriterion.make ''1.4.2''
     ''Audio Control'' LevelA
     ''Mechanism to pause, stop, or control audio volume''
     ''https://www.w3.org/TR/WCAG21/#audio-control''
     (Some ''media'')),
  (''1.4.3'', WcagCriterion.make ''1.4.3''
     ''Contrast (Minimum)'' LevelAA
     ''Text has a contrast ratio of at least 4.5:1 (3:1 for large text)''
     ''https://www.w3.org/TR/WCAG21/#contrast-minimum''
     (Some ''text'')),
  (''1.4.4'', WcagCriterion.make ''1.4.4''
     ''Resize Text'' LevelAA
     ''Text can be resized up to 200% without loss of content or functionality''
     ''https://www.w3.org/TR/WCAG21/#resize-text''
     (Some ''text'')),
  (''1.4.5'', WcagCriterion.make ''1.4.5''
     ''Images of Text'' LevelAA
     ''Use text rather than images of text (except for customizable or essential)''
     ''https://www.w3.org/TR/WCAG21/#images-of-text''
     (Some ''text'')),
  (''1.4.6'', WcagCriterion.make ''1.4.6''
     ''Contrast (Enhanced)'' LevelAAA
     ''Text has a contrast ratio of at least 7:1 (4.5:1 for large text)''
     ''https://www.w3.org/TR/WCAG21/#contrast-enhanced''
     (Some ''text'')),
  (''1.4.7'', WcagCriterion.make ''1.4.7''
     ''Low or No Background Audio'' LevelAAA
     ''Prerecorded audio has low/no background noise or can be turned off''
     ''https://www.w3.org/TR/WCAG21/#low-or-no-background-audio''
     (Some ''media'')),
  (''1.4.8'', WcagCriterion.make ''1.4.8''
     ''Visual Presentation'' LevelAAA
     ''Text blocks: select colors, max 80 chars/line, no justify, adequate spacing, 200% resize''
     ''https://www.w3.org/TR/WCAG21/#visual-presentation''
     (Some ''text'')),
  (''1.4.9'', WcagCriterion.make ''1.4.9''
     ''Images of Text (No Exception)'' LevelAAA
     ''Images of text only used for pure decoration or where essential''
     ''https://www.w3.org/TR/WCAG21/#images-of-text-no-exception''
     (Some ''text'')),
  (''1.4.10'', WcagCriterion.make ''1.4.10''
     ''Reflow'' LevelAA
     ''Content reflows at 400% zoom without horizontal scrolling (320px viewport)''
     ''https://www.w3.org/TR/WCAG21/#reflow''
     (Some ''text'')),
  (''1.4.11'', WcagCriterion.make ''1.4.11''
     ''Non-text Contrast'' LevelAA
     ''UI components and graphics have 3:1 contrast ratio''
     ''https://www.w3.org/TR/WCAG21/#non-text-contrast''
     (Some ''text'')),
  (''1.4.12'', WcagCriterion.make ''1.4.12''
     ''Text Spacing'' LevelAA
     ''No loss of content when: line-height 1.5x, paragraph spacing 2x, letter spacing 0.12x, word spacing 0.16x''
     ''https://www.w3.org/TR/WCAG21/#text-spacing''
     (Some ''text'')),
  (''1.4.13'', WcagCriterion.make ''1.4.13''
     ''Content on Hover or Focus'' LevelAA
     ''Additional content on hover/focus is dismissible, hoverable, and persistent''
     ''https://www.w3.org/TR/WCAG21/#content-on-hover-or-focus''
     (Some ''keyboard'')),
  (''2.1.1'', WcagCriterion.make ''2.1.1''
     ''Keyboard'' LevelA
     ''All functionality available from keyboard''
     ''https://www.w3.org/TR/WCAG21/#keyboard''
     (Some ''keyboard'')),
  (''2.1.2'', WcagCriterion.make ''2.1.2''
     ''No Keyboard Trap'' LevelA
     ''Keyboard focus can be moved away from any component''
     ''https://www.w3.org/TR/WCAG21/#no-keyboard-trap''
     (Some ''keyboard'')),
  (''2.1.3'', WcagCriterion.make ''2.1.3''
     ''Keyboard (No Exception)'' LevelAAA
     ''All functionality available from keyboard without exception''
     ''https://www.w3.org/TR/WCAG21/#keyboard-no-exception''
     (Some ''keyboard'')),
  (''2.1.4'', WcagCriterion.make ''2.1.4''
     ''Character Key Shortcuts'' LevelA
     ''Character key shortcuts can be turned off or remapped''
     ''https://www.w3.org/TR/WCAG21/#character-key-shortcuts''
     (Some ''keyboard'')),
  (''2.2.1'', WcagCriterion.make ''2.2.1''
     ''Timing Adjustable'' LevelA
     ''Time limits can be turned off, adjusted, or extended''
     ''https://www.w3.org/TR/WCAG21/#timing-adjustable''
     (Some ''keyboard'')),
  (''2.2.2'', WcagCriterion.make ''2.2.2''
     ''Pause, Stop, Hide'' LevelA
     ''Moving, blinking, scrolling, or auto-updating content can be paused, stopped, or hidden''
     ''https://www.w3.org/TR/WCAG21/#pause-stop-hide''
     (Some ''media'')),
  (''2.2.3'', WcagCriterion.make ''2.2.3''
     ''No Timing'' LevelAAA
     ''Timing is not essential part of the activity''
     ''https://www.w3.org/TR/WCAG21/#no-timing''
     (Some ''keyboard'')),
  (''2.2.4'', WcagCriterion.make ''2.2.4''
     ''Interruptions'' LevelAAA
     ''Interruptions can be postponed or suppressed''
     ''https://www.w3.org/TR/WCAG21/#interruptions''
     (Some ''keyboard'')),
  (''2.2.5'', WcagCriterion.make ''2.2.5''
     ''Re-authenticating'' LevelAAA
     ''Data preserved after re-authentication''
     ''https://www.w3.org/TR/WCAG21/#re-authenticating''
     (Some ''forms'')),
  (''2.2.6'', WcagCriterion.make ''2.2.6''
     ''Timeouts'' LevelAAA
     ''Users warned of inactivity timeouts that cause data loss''
     ''https://www.w3.org/TR/WCAG21/#timeouts''
     (Some ''forms'')),
  (''2.3.1'', WcagCriterion.make ''2.3.1''
     ''Three Flashes or Below Threshold'' LevelA
     ''No content flashes more than 3 times per second''
     ''https://www.w3.org/TR/WCAG21/#three-flashes-or-below-threshold''
     (Some ''media'')),
  (''2.3.2'', WcagCriterion.make ''2.3.2''
     ''Three Flashes'' LevelAAA
     ''No content flashes more than 3 times per second''
     ''https://www.w3.org/TR/WCAG21/#three-flashes''
     (Some ''media'')),
  (''2.3.3'', WcagCriterion.make ''2.3.3''
     ''Animation from Interactions'' LevelAAA
     ''Motion animation can be disabled''
     ''https://www.w3.org/TR/WCAG21/#animation-from-interactions''
     (Some ''media'')),
  (''2.4.1'', WcagCriterion.make ''2.4.1''
     ''Bypass Blocks'' LevelA
     ''Mechanism to bypass repeated blocks of content''
     ''https://www.w3.org/TR/WCAG21/#bypass-blocks''
     (Some ''structure'')),
  (''2.4.2'', WcagCriterion.make ''2.4.2''
     ''Page Titled'' LevelA
     ''Pages have descriptive titles''
     ''https://www.w3.org/TR/WCAG21/#page-titled''
     (Some ''structure'')),
  (''2.4.3'', WcagCriterion.make ''2.4.3''
     ''Focus Order'' LevelA
     ''Focus order preserves meaning and operability''
     ''https://www.w3.org/TR/WCAG21/#focus-order''
     (Some ''keyboard'')),
  (''2.4.4'', WcagCriterion.make ''2.4.4''
     ''Link Purpose (In Context)'' LevelA
     ''Link purpose can be determined from link text or context''
     ''https://www.w3.org/TR/WCAG21/#link-purpose-in-context''
     (Some ''structure'')),
  (''2.4.5'', WcagCriterion.make ''2.4.5''
     ''Multiple Ways'' LevelAA
     ''More than one way to locate a page within a set of pages''
     ''https://www.w3.org/TR/WCAG21/#multiple-ways''
     (Some ''structure'')),
  (''2.4.6'', WcagCriterion.make ''2.4.6''
     ''Headings and Labels'' LevelAA
     ''Headings and labels describe topic or purpose''
     ''https://www.w3.org/TR/WCAG21/#headings-and-labels''
     (Some ''structure'')),
  (''2.4.7'', WcagCriterion.make ''2.4.7''
     ''Focus Visible'' LevelAA
     ''Keyboard focus indicator is visible''
     ''https://www.w3.org/TR/WCAG21/#focus-visible''
     (Some ''keyboard'')),
  (''2.4.8'', WcagCriterion.make ''2.4.8''
     ''Location'' LevelAAA
     (''Information about user'' @ [CHR 0x27] @ ''s location within a set of pages'')
     ''https://www.w3.org/TR/WCAG21/#location''
     (Some ''structure'')),
  (''2.4.9'', WcagCriterion.make ''2.4.9''
     ''Link Purpose (Link Only)'' LevelAAA
     ''Link purpose can be determined from link text alone''
     ''https://www.w3.org/TR/WCAG21/#link-purpose-link-only''
     (Some ''structure'')),
  (''2.4.10'', WcagCriterion.make ''2.4.10''
     ''Section Headings'' LevelAAA
     ''Section headings are used to organize content''
     ''https://www.w3.org/TR/WCAG21/#section-headings''
     (Some ''structure'')),
  (''2.5.1'', WcagCriterion.make ''2.5.1''
     ''Pointer Gestures'' LevelA
     ''Multipoint or path-based gestures have single-pointer alternatives''
     ''https://www.w3.org/TR/WCAG21/#pointer-gestures''
     (Some ''keyboard'')),
  (''2.5.2'', WcagCriterion.make ''2.5.2''
     ''Pointer Cancellation'' LevelA
     ''Single-pointer functions can be cancelled''
     ''https://www.w3.org/TR/WCAG21/#pointer-cancellation''
     (Some ''keyboard'')),
  (''2.5.3'', WcagCriterion.make ''2.5.3''
     ''Label in Name'' LevelA
     ''Accessible name contains the visible label text''
     ''https://www.w3.org/TR/WCAG21/#label-in-name''
     (Some ''forms'')),
  (''2.5.4'', WcagCriterion.make ''2.5.4''
     ''Motion Actuation'' LevelA
     ''Motion-triggered functions can be disabled and have alternatives''
     ''https://www.w3.org/TR/WCAG21/#motion-actuation''
     (Some ''keyboard'')),
  (''2.5.5'', WcagCriterion.make ''2.5.5''
     ''Target Size'' LevelAAA
     (''Target size is at least 44'' @ [CHR 0xC3] @ [CHR 0x83] @ [CHR 0xE2] @ [CHR 0x80] @ [CHR 0x94] @ ''44 CSS pixels'')
     ''https://www.w3.org/TR/WCAG21/#target-size''
     (Some ''keyboard'')),
  (''2.5.6'', WcagCriterion.make ''2.5.6''
     ''Concurrent Input Mechanisms'' LevelAAA
     ''Input modalities are not restricted''
     ''https://www.w3.org/TR/WCAG21/#concurrent-input-mechanisms''
     (Some ''keyboard'')),
  (''3.1.1'', WcagCriterion.make ''3.1.1''
     ''Language of Page'' LevelA
     ''Default language of the page can be programmatically determined''
     ''https://www.w3.org/TR/WCAG21/#language-of-page''
     (Some ''text'')),
  (''3.1.2'', WcagCriterion.make ''3.1.2''
     ''Language of Parts'' LevelAA
     ''Language of passages/phrases can be programmatically determined''
     ''https://www.w3.org/TR/WCAG21/#language-of-parts''
     (Some ''text'')),
  (''3.1.3'', WcagCriterion.make ''3.1.3''
     ''Unusual Words'' LevelAAA
     ''Mechanism for identifying definitions of unusual words''
     ''https://www.w3.org/TR/WCAG21/#unusual-words''
     (Some ''text'')),
  (''3.1.4'', WcagCriterion.make ''3.1.4''
     ''Abbreviations'' LevelAAA
     ''Mechanism for identifying expanded form of abbreviations''
     ''https://www.w3.org/TR/WCAG21/#abbreviations''
     (Some ''text'')),
  (''3.1.5'', WcagCriterion.make ''3.1.5''
     ''Reading Level'' LevelAAA
     ''Supplemental content available when text requires advanced reading''
     ''https://www.w3.org/TR/WCAG21/#reading-level''
     (Some ''text'')),
  (''3.1.6'', WcagCriterion.make ''3.1.6''
     ''Pronunciation'' LevelAAA
     ''Mechanism for identifying pronunciation of words''
     ''https://www.w3.org/TR/WCAG21/#pronunciation''
     (Some ''text'')),
  (''3.2.1'', WcagCriterion.make ''3.2.1''
     ''On Focus'' LevelA
     ''Focus does not trigger unexpected context changes''
     ''https://www.w3.org/TR/WCAG21/#on-focus''
     (Some ''keyboard'')),
  (''3.2.2'', WcagCriterion.make ''3.2.2''
     ''On Input'' LevelA
     ''Input does not trigger unexpected context changes''
     ''https://www.w3.org/TR/WCAG21/#on-input''
     (Some ''forms'')),
  (''3.2.3'', WcagCriterion.make ''3.2.3''
     ''Consistent Navigation'' LevelAA
     ''Navigation is consistent across pages''
     ''https://www.w3.org/TR/WCAG21/#consistent-navigation''
     (Some ''structure'')),
  (''3.2.4'', WcagCriterion.make ''3.2.4''
     ''Consistent Identification'' LevelAA
     ''Components with same functionality identified consistently''
     ''https://www.w3.org/TR/WCAG21/#consistent-identification''
     (Some ''structure'')),
  (''3.2.5'', WcagCriterion.make ''3.2.5''
     ''Change on Request'' LevelAAA
     ''Context changes only on user request''
     ''https://www.w3.org/TR/WCAG21/#change-on-request''
     (Some ''forms'')),
  (''3.3.1'', WcagCriterion.make ''3.3.1''
     ''Error Identification'' LevelA
     ''Input errors are identified and described in text''
     ''https://www.w3.org/TR/WCAG21/#error-identification''
     (Some ''forms'')),
  (''3.3.2'', WcagCriterion.make ''3.3.2''
     ''Labels or Instructions'' LevelA
     ''Labels or instructions provided for user input''
     ''https://www.w3.org/TR/WCAG21/#labels-or-instructions''
     (Some ''forms'')),
  (''3.3.3'', WcagCriterion.make ''3.3.3''
     ''Error Suggestion'' LevelAA
     ''Suggestions provided for correcting input errors''
     ''https://www.w3.org/TR/WCAG21/#error-suggestion''
     (Some ''forms'')),
  (''3.3.4'', WcagCriterion.make ''3.3.4''
     ''Error Prevention (Legal, Financial, Data)'' LevelAA
     ''Submissions are reversible, checked, or confirmed''
     ''https://www.w3.org/TR/WCAG21/#error-prevention-legal-financial-data''
     (Some ''forms'')),
  (''3.3.5'', WcagCriterion.make ''3.3.5''
     ''Help'' LevelAAA
     ''Context-sensitive help is available''
     ''https://www.w3.org/TR/WCAG21/#help''
     (Some ''forms'')),
  (''3.3.6'', WcagCriterion.make ''3.3.6''
     ''Error Prevention (All)'' LevelAAA
     ''All submissions are reversible, checked, or confirmed''
     ''https://www.w3.org/TR/WCAG21/#error-prevention-all''
     (Some ''forms'')),
  (''4.1.1'', WcagCriterion.make ''4.1.1''
     ''Parsing'' LevelA
     ''Elements have complete start/end tags and are properly nested (obsolete in WCAG 2.2)''
     ''https://www.w3.org/TR/WCAG21/#parsing''
     (Some ''aria'')),
  (''4.1.2'', WcagCriterion.make ''4.1.2''
     ''Name, Role, Value'' LevelA
     ''UI components have accessible name, role, states, properties, and values''
     ''https://www.w3.org/TR/WCAG21/#name-role-value''
     (Some ''aria'')),
  (''4.1.3'', WcagCriterion.make ''4.1.3''
     ''Status Messages'' LevelAA
     ''Status messages can be programmatically determined without focus''
     ''https://www.w3.org/TR/WCAG21/#status-messages''
     (Some ''aria''))]\<close>

text \<open>
  \<open>getCriterion\<close> reads the table at the id. An id that is not a key of the table
  gives no criterion with a URL.
\<close>

definition getCriterion :: "string \<Rightarrow> WcagCriterion option" where
  "getCriterion i = map_of WCAG_CRITERIA i"

section \<open>Strings\<close>

text \<open>\<open>Array.prototype.join\<close>, on strings and on template strings alike.\<close>

fun join :: "'a list \<Rightarrow> 'a list list \<Rightarrow> 'a list" where
  "join sep [] = []"
| "join sep [x] = x"
| "join sep (x # y # ys) = x @ sep @ join sep (y # ys)"

text \<open>
  A string is truthy when it is defined and not empty. An interpolated number prints at
  least one character.
\<close>

definition truthy :: "jsstring option \<Rightarrow> bool" where
  "truthy s = (case s of None \<Rightarrow> False | Some ps \<Rightarrow> list_ex (\<lambda>p. p \<noteq> Lit []) ps)"

definition levelName :: "WcagLevel \<Rightarrow> string" where
  "levelName l = (case l of LevelA \<Rightarrow> ''A'' | LevelAA \<Rightarrow> ''AA'' | LevelAAA \<Rightarrow> ''AAA'')"

definition arrow :: string where
  "arrow = [CHR 0xE2, CHR 0x86, CHR 0x92]"

definition double_rule :: string where
  "double_rule = concat (replicate 63 [CHR 0xE2, CHR 0x95, CHR 0x90])"

definition single_rule :: string where
  "single_rule = concat (replicate 63 [CHR 0xE2, CHR 0x94, CHR 0x80])"

definition cross_mark_emoji :: string where
  "cross_mark_emoji = [CHR 0xE2, CHR 0x9D, CHR 0x8C]"

definition warning_emoji :: string where
  "warning_emoji = [CHR 0xE2, CHR 0x9A, CHR 0xA0, CHR 0xEF, CHR 0xB8, CHR 0x8F]"

definition info_emoji :: string where
  "info_emoji = [CHR 0xE2, CHR 0x84, CHR 0xB9, CHR 0xEF, CHR 0xB8, CHR 0x8F]"

definition check_mark_emoji :: string where
  "check_mark_emoji = [CHR 0xE2, CHR 0x9C, CHR 0x85]"

section \<open>Report builder (src/unnamed/part_008)\<close>

text \<open>
  The lines of the human report are template strings; the report joins them with a
  line break. \<open>toUpperCase\<close> is the string method of the host, a parameter here;
  the argument \<open>title\<close> of \<open>formatHumanReport\<close> is \<open>heading\<close>.
\<close>

definition verdictHeader :: "CheckResult \<Rightarrow> string" where
  "verdictHeader r =
     ''['' @ criterion r @ ''] '' @ name r @ '' (Level '' @ levelName (level r) @ '')''"

definition verdictBlock :: "CheckResult \<Rightarrow> jsstring list" where
  "verdictBlock r =
     [[Lit (verdictHeader r)], Lit ''   '' # message r]
     @ (if truthy (recommendation r)
        then [Lit (''   '' @ arrow @ '' '')
              # (case recommendation r of Some s \<Rightarrow> s | None \<Rightarrow> [])]
        else [])
     @ [[]]"

definition verdictLine :: "CheckResult \<Rightarrow> jsstring" where
  "verdictLine r = Lit (verdictHeader r @ '': '') # message r"

definition formatHumanReport ::
  "(string \<Rightarrow> string) \<Rightarrow> CheckResult list \<Rightarrow> string option \<Rightarrow> jsstring" where
  "formatHumanReport toUpperCase rs heading =
     (let reportTitle = (case heading of Some t \<Rightarrow> t | None \<Rightarrow> ''WCAG ACCESSIBILITY REPORT'');
          passed = filter (\<lambda>r. status r = Pass) rs;
          failed = filter (\<lambda>r. status r = Fail) rs;
          warnings = filter (\<lambda>r. status r = Warning) rs;
          info = filter (\<lambda>r. status r = Info) rs;
          lines =
            [[Lit double_rule],
             [Lit (replicate 20 CHR '' '' @ toUpperCase reportTitle @ replicate 14 CHR '' '')],
             [Lit double_rule],
             [],
             [Lit ''SUMMARY: '', Num (real (length passed)), Lit '' passed, '',
              Num (real (length failed)), Lit '' failed, '',
              Num (real (length warnings)), Lit '' warnings''],
             []]
            @ (if length failed > 0
               then [[Lit (cross_mark_emoji @ '' FAILURES'')], [Lit single_rule]]
                    @ concat (map verdictBlock failed)
               else [])
            @ (if length warnings > 0
               then [[Lit (warning_emoji @ ''  WARNINGS'')], [Lit single_rule]]
                    @ concat (map verdictBlock warnings)
               else [])
            @ (if length info > 0
               then [[Lit (info_emoji @ ''  INFO'')], [Lit single_rule]]
                    @ map verdictLine info @ [[]]
               else [])
            @ (if length passed > 0
               then [[Lit (check_mark_emoji @ '' PASSED'')], [Lit single_rule]]
                    @ map verdictLine passed @ [[]]
               else [])
            @ [[Lit double_rule]]
      in join [Lit ''\<newline>''] lines)"

text \<open>
  \<open>new Date().toISOString()\<close> reads the clock when the machine report is built; the
  reading is the argument \<open>now\<close>.
\<close>

definition formatMachineReport ::
  "string \<Rightarrow> CheckResult list \<Rightarrow> string option \<Rightarrow> MachineReport" where
  "formatMachineReport now rs cat =
     (let passed = filter (\<lambda>r. status r = Pass) rs;
          failed = filter (\<lambda>r. status r = Fail) rs;
          warnings = filter (\<lambda>r. status r = Warning) rs
      in \<lparr> wcagVersion = ''2.1'',
           timestamp = now,
           MachineReport.category = cat,
           MachineReport.summary =
             \<lparr> total = length rs,
               passed = length passed,
               failed = length failed,
               warnings = length warnings \<rparr>,
           MachineReport.results =
             map (\<lambda>r. \<lparr> criterion = criterion r,
                         name = name r,
                         level = level r,
                         status = status r,
                         value' = value' r,
                         required = required r,
                         message = message r,
                         recommendation = recommendation r,
                         url = map_option WcagCriterion.url (getCriterion (criterion r)) \<rparr>) rs \<rparr>)"

definition byLevel :: "CheckResult list \<Rightarrow> WcagLevel \<Rightarrow> LevelTally" where
  "byLevel rs l =
     \<lparr> LevelTally.passed = length (filter (\<lambda>r. level r = l \<and> status r = Pass) rs),
       LevelTally.failed = length (filter (\<lambda>r. level r = l \<and> status r = Fail) rs) \<rparr>"

definition createReport ::
  "(string \<Rightarrow> string) \<Rightarrow> string \<Rightarrow> CheckResult list \<Rightarrow> ReportOptions option
     \<Rightarrow> ValidationReport" where
  "createReport toUpperCase now rs options =
     (let passed = filter (\<lambda>r. status r = Pass) rs;
          failed = filter (\<lambda>r. status r = Fail) rs;
          warnings = filter (\<lambda>r. status r = Warning) rs
      in \<lparr> summary =
             \<lparr> total = length rs,
               passed = length passed,
               failed = length failed,
               warnings = length warnings,
               levelA = byLevel rs LevelA,
               levelAA = byLevel rs LevelAA,
               levelAAA = byLevel rs LevelAAA \<rparr>,
           results = rs,
           human = formatHumanReport toUpperCase rs
                     (case options of None \<Rightarrow> None | Some opt \<Rightarrow> title opt),
           machine = formatMachineReport now rs
                       (case options of None \<Rightarrow> None
                        | Some opt \<Rightarrow> ReportOptions.category opt) \<rparr>)"

section \<open>Contrast check (packages/text/src/checks.ts)\<close>

text \<open>The constants of \<open>REQUIREMENTS\<close> that the text checks read.\<close>

definition contrast_AA_normal :: real where "contrast_AA_normal = 4.5"
definition contrast_AA_large :: real where "contrast_AA_large = 3"
definition contrast_AAA_normal :: real where "contrast_AAA_normal = 7"
definition contrast_AAA_large :: real where "contrast_AAA_large = 4.5"
definition largeText_normalPx :: real where "largeText_normalPx = 24"
definition largeText_boldPx :: real where "largeText_boldPx = 18.66"

definition isLargeText :: "real \<Rightarrow> bool \<Rightarrow> bool" where
  "isLargeText sizePx isBold =
     (sizePx \<ge> largeText_normalPx \<or> (isBold \<and> sizePx \<ge> largeText_boldPx))"

text \<open>\<open>Math.round\<close>: the nearest integer, a tie going up.\<close>

definition Math_round :: "real \<Rightarrow> real" where
  "Math_round x = of_int \<lfloor>x + 1 / 2\<rfloor>"

text \<open>
  The two functions of the colour library (\<open>culori\<close>) are parameters of the check:
  \<open>parse\<close> gives a colour or nothing, \<open>wcagContrast\<close> the contrast of two colours.
  \<open>roundedRatio\<close> is the constant \<open>ratio\<close> of the source, \<open>aaRequired\<close> and
  \<open>aaaRequired\<close> its two thresholds.
\<close>

definition roundedRatio :: "('c \<Rightarrow> 'c \<Rightarrow> real) \<Rightarrow> 'c \<Rightarrow> 'c \<Rightarrow> real" where
  "roundedRatio wcagContrast fg bg = Math_round (wcagContrast fg bg * 100) / 100"

definition aaRequired :: "bool \<Rightarrow> real" where
  "aaRequired large = (if large then contrast_AA_large else contrast_AA_normal)"

definition aaaRequired :: "bool \<Rightarrow> real" where
  "aaaRequired large = (if large then contrast_AAA_large else contrast_AAA_normal)"

definition textType :: "bool \<Rightarrow> string" where
  "textType large = (if large then ''large'' else ''normal'')"

definition contrastAA :: "real \<Rightarrow> bool \<Rightarrow> CheckResult" where
  "contrastAA ratio large =
     (let aaPasses = (ratio \<ge> aaRequired large) in
      \<lparr> criterion = ''1.4.3'',
        name = ''Contrast (Minimum)'',
        level = LevelAA,
        status = (if aaPasses then Pass else Fail),
        value' = Some (VNum ratio),
        required = Some (VNum (aaRequired large)),
        message =
          (if aaPasses
           then [Lit ''Contrast ratio '', Num ratio, Lit '':1 meets AA requirement ('',
                 Num (aaRequired large), Lit ('':1 for '' @ textType large @ '' text)'')]
           else [Lit ''Contrast ratio '', Num ratio, Lit '':1 fails AA requirement ('',
                 Num (aaRequired large), Lit ('':1 for '' @ textType large @ '' text)'')]),
        recommendation =
          (if aaPasses then None
           else Some [Lit ''Increase contrast to at least '', Num (aaRequired large),
                      Lit '':1'']) \<rparr>)"

definition contrastAAA :: "real \<Rightarrow> bool \<Rightarrow> CheckResult" where
  "contrastAAA ratio large =
     (let aaPasses = (ratio \<ge> aaRequired large);
          aaaPasses = (ratio \<ge> aaaRequired large) in
      \<lparr> criterion = ''1.4.6'',
        name = ''Contrast (Enhanced)'',
        level = LevelAAA,
        status = (if aaaPasses then Pass else (if aaPasses then Warning else Fail)),
        value' = Some (VNum ratio),
        required = Some (VNum (aaaRequired large)),
        message =
          (if aaaPasses
           then [Lit ''Contrast ratio '', Num ratio, Lit '':1 meets AAA requirement ('',
                 Num (aaaRequired large), Lit ('':1 for '' @ textType large @ '' text)'')]
           else [Lit ''Contrast ratio '', Num ratio,
                 Lit '':1 does not meet AAA requirement ('',
                 Num (aaaRequired large), Lit ('':1 for '' @ textType large @ '' text)'')]),
        recommendation =
          (if aaaPasses then None
           else Some [Lit ''Increase contrast to at least '', Num (aaaRequired large),
                      Lit '':1 for enhanced accessibility'']) \<rparr>)"

definition invalidColor :: "string \<Rightarrow> CheckResult" where
  "invalidColor c =
     \<lparr> criterion = ''1.4.3'',
       name = ''Contrast (Minimum)'',
       level = LevelAA,
       status = Fail,
       value' = None,
       required = None,
       message = [Lit (''Invalid color: '' @ c)],
       recommendation = None \<rparr>"

definition checkContrastRatio ::
  "(string \<Rightarrow> 'c option) \<Rightarrow> ('c \<Rightarrow> 'c \<Rightarrow> real) \<Rightarrow> string \<Rightarrow> string \<Rightarrow> real \<Rightarrow> bool
     \<Rightarrow> CheckResult list" where
  "checkContrastRatio parse wcagContrast foreground background sizePx isBold =
     (case (parse foreground, parse background) of
        (Some fg, Some bg) \<Rightarrow>
          (let ratio = roundedRatio wcagContrast fg bg;
               large = isLargeText sizePx isBold
           in [contrastAA ratio large, contrastAAA ratio large])
      | (None, _) \<Rightarrow> [invalidColor foreground]
      | (Some fg, None) \<Rightarrow> [invalidColor background])"

section \<open>Text spacing check (packages/text/src/checks.ts)\<close>






section \<open>Heading structure check (src/unnamed/part_003)\<close>

text \<open>One entry of \<open>skippedLevels\<close>: the two levels and the text of the later heading.\<close>

definition skipText :: "HeadingInput \<Rightarrow> HeadingInput \<Rightarrow> jsstring" where
  \<open>skipText previous current =
     [Lit ''h'', Num (HeadingInput.level previous),
      Lit ('' '' @ arrow @ '' h''), Num (HeadingInput.level current),
      Lit ('' ("'' @ text' current @ ''")'')]\<close>

text \<open>
  The \<open>for\<close> loop from \<open>i = 1\<close> while \<open>i < headings.length\<close>; it reads the headings
  at \<open>i\<close> and \<open>i - 1\<close>, both in range.
\<close>

function skipLoop :: "HeadingInput list \<Rightarrow> nat \<Rightarrow> jsstring list \<Rightarrow> jsstring list" where
  "skipLoop hs i skippedLevels =
     (if i < length hs
      then skipLoop hs (i + 1)
             (if HeadingInput.level (hs ! i) - HeadingInput.level (hs ! (i - 1)) > 1
              then skippedLevels @ [skipText (hs ! (i - 1)) (hs ! i)]
              else skippedLevels)
      else skippedLevels)"
  by pat_completeness auto
termination
  by (relation "measure (\<lambda>(hs, i, skippedLevels). length hs - i)") auto

declare skipLoop.simps [simp del]

definition infoRelationships ::
  "CheckStatus \<Rightarrow> jsvalue option \<Rightarrow> jsstring \<Rightarrow> jsstring option \<Rightarrow> CheckResult" where
  "infoRelationships st v msg rec =
     \<lparr> criterion = ''1.3.1'',
       name = ''Info and Relationships'',
       level = LevelA,
       status = st,
       value' = v,
       required = None,
       message = msg,
       recommendation = rec \<rparr>"

definition checkHeadingStructure :: "HeadingStructureInput \<Rightarrow> CheckResult list" where
  "checkHeadingStructure input =
     (let hs = headings input in
      if length hs = 0
      then [infoRelationships Warning None [Lit ''Page has no headings'']
              (Some [Lit ''Use heading elements (h1-h6) to identify sections of content''])]
      else
        (let count1 = (case h1Count input of
                         Some n \<Rightarrow> n
                       | None \<Rightarrow> real (length (filter (\<lambda>h. HeadingInput.level h = 1) hs)));
             skippedLevels = skipLoop hs 1 []
         in [\<lparr> criterion = ''2.4.6'',
               name = ''Headings and Labels'',
               level = LevelAA,
               status = Info,
               value' = None,
               required = None,
               message = [Lit ''Page has '', Num (real (length hs)), Lit '' heading(s)''],
               recommendation = None \<rparr>]
            @ (if count1 = 0
               then [infoRelationships Warning None [Lit ''Page lacks h1 heading'']
                       (Some [Lit ''Add a main h1 heading that describes the page content''])]
               else if count1 > 1
               then [infoRelationships Warning (Some (VNum count1))
                       [Lit ''Page has '', Num count1, Lit '' h1 headings'']
                       (Some [Lit (''Consider using single h1 for main content; ''
                                   @ ''multiple h1s can confuse navigation'')])]
               else [])
            @ (if length skippedLevels > 0
               then [infoRelationships Warning None
                       (Lit ''Heading levels skipped: '' # join [Lit ''; ''] skippedLevels)
                       (Some [Lit (''Use heading levels in order (h1, h2, h3...) ''
                                   @ ''without skipping levels'')])]
               else [infoRelationships Pass None
                       [Lit ''Heading levels follow logical sequence''] None])
            @ [\<lparr> criterion = ''2.4.10'',
                 name = ''Section Headings'',
                 level = LevelAAA,
                 status = (if length hs \<ge> 2 then Pass else Warning),
                 value' = None,
                 required = None,
                 message =
                   (if length hs \<ge> 2
                    then [Lit ''Section headings are used to organize content'']
                    else [Lit ''Consider adding more section headings for AAA compliance'']),
                 recommendation = None \<rparr>]))"

section \<open>Flashing check (src/unnamed/part_012)\<close>

definition threeFlashes ::
  "CheckStatus \<Rightarrow> jsvalue option \<Rightarrow> jsvalue option \<Rightarrow> jsstring \<Rightarrow> jsstring option
     \<Rightarrow> CheckResult" where
  "threeFlashes st v req msg rec =
     \<lparr> criterion = ''2.3.1'',
       name = ''Three Flashes or Below Threshold'',
       level = LevelA,
       status = st,
       value' = v,
       required = req,
       message = msg,
       recommendation = rec \<rparr>"

definition checkFlashing :: "FlashingInput \<Rightarrow> CheckResult list" where
  "checkFlashing input =
     (if \<not> hasFlashing input
      then [threeFlashes Pass None None [Lit ''No flashing content detected''] None]
      else
        (let fps = (case flashesPerSecond input of Some n \<Rightarrow> n | None \<Rightarrow> 0);
             isSafe = (fps \<le> 3 \<or> isBelowThreshold input = Some True);
             noFlashing = (fps = 0)
         in [threeFlashes (if isSafe then Pass else Fail) (Some (VNum fps)) (Some (VNum 3))
               (if isSafe
                then [Lit ''Flashing content is safe ('', Num fps,
                      Lit '' flashes/sec or below threshold)'']
                else [Lit ''Content flashes '', Num fps,
                      Lit '' times per second, exceeding safe threshold''])
               (if isSafe then None
                else Some [Lit (''Reduce flash frequency to 3 or fewer per second, or ''
                                @ ''ensure flashes are below general flash threshold'')]),
             \<lparr> criterion = ''2.3.2'',
               name = ''Three Flashes'',
               level = LevelAAA,
               status = (if noFlashing then Pass else Warning),
               value' = Some (VNum fps),
               required = None,
               message =
                 (if noFlashing
                  then [Lit ''Content does not flash (meets AAA)'']
                  else [Lit ''Content flashes '', Num fps,
                        Lit '' times per second - consider removing for AAA'']),
               recommendation =
                 (if noFlashing then None
                  else Some [Lit ''For AAA compliance, avoid any flashing content'']) \<rparr>]
            @ (if (case flashAreaPercent input of Some a \<Rightarrow> a | None \<Rightarrow> 0) > 25
               then [threeFlashes Warning (map_option VNum (flashAreaPercent input)) None
                       [Lit ''Flashing area ('',
                        (case flashAreaPercent input of
                           Some a \<Rightarrow> Num a | None \<Rightarrow> Lit ''undefined''),
                        Lit ''% of viewport) is large'']
                       (Some [Lit (''Large flashing areas increase seizure risk; ''
                                   @ ''minimize flashing area size'')])]
               else [])))"

section \<open>Error prevention check (packages/forms/src/checks.ts)\<close>

definition transactionTypeName :: "TransactionType \<Rightarrow> string" where
  "transactionTypeName t =
     (case t of Legal \<Rightarrow> ''legal'' | Financial \<Rightarrow> ''financial''
      | DataModification \<Rightarrow> ''data-modification'' | Test \<Rightarrow> ''test'' | Other \<Rightarrow> ''other'')"

text \<open>
  \<open>a || b\<close> on optional booleans: the left operand when it is \<open>true\<close>, else the right
  one, which may be \<open>false\<close> or \<open>undefined\<close>.
\<close>

definition jsOr :: "bool option \<Rightarrow> bool option \<Rightarrow> bool option" where
  "jsOr a b = (if a = Some True then a else b)"

definition errorPreventionAA ::
  "CheckStatus \<Rightarrow> jsvalue option \<Rightarrow> jsstring \<Rightarrow> jsstring option \<Rightarrow> CheckResult" where
  "errorPreventionAA st v msg rec =
     \<lparr> criterion = ''3.3.4'',
       name = ''Error Prevention (Legal, Financial, Data)'',
       level = LevelAA,
       status = st,
       value' = v,
       required = None,
       message = msg,
       recommendation = rec \<rparr>"

definition checkErrorPrevention :: "FormSubmissionInput \<Rightarrow> CheckResult list" where
  \<open>checkErrorPrevention input =
     (let isHighStakes =
            (transactionTypeName (transactionType input)
               \<in> set [''legal'', ''financial'', ''data-modification''])
      in if \<not> isHighStakes
         then [errorPreventionAA Info None
                 [Lit (''Transaction type "'' @ transactionTypeName (transactionType input)
                       @ ''" may not require error prevention measures'')] None]
         else
           (let hasPrevention =
                  jsOr (jsOr (jsOr (isReversible input) (dataIsChecked input))
                          (canReview input)) (requiresConfirmation input);
                preventionMethods =
                  (if isReversible input = Some True then [''reversible''] else [])
                  @ (if dataIsChecked input = Some True then [''checked for errors''] else [])
                  @ (if canReview input = Some True
                     then [''review before submission''] else [])
                  @ (if requiresConfirmation input = Some True
                     then [''confirmation required''] else [])
            in [errorPreventionAA
                  (if hasPrevention = Some True then Pass else Fail)
                  (map_option VBool hasPrevention)
                  (if hasPrevention = Some True
                   then [Lit (''Error prevention: '' @ join '', '' preventionMethods)]
                   else [Lit (transactionTypeName (transactionType input)
                              @ '' transaction lacks error prevention mechanism'')])
                  (if hasPrevention = Some True then None
                   else Some [Lit (''Provide at least one: reversibility, error checking, ''
                                   @ ''review opportunity, or confirmation'')]),
                \<lparr> criterion = ''3.3.6'',
                  name = ''Error Prevention (All)'',
                  level = LevelAAA,
                  status = (if hasPrevention = Some True then Pass else Warning),
                  value' = None,
                  required = None,
                  message =
                    (if hasPrevention = Some True
                     then [Lit (''Form submission has error prevention ''
                                @ ''(meets AAA for all submissions)'')]
                     else [Lit (''Consider adding error prevention for all ''
                                @ ''form submissions (AAA)'')]),
                  recommendation =
                    (if hasPrevention = Some True then None
                     else Some [Lit (''For AAA, all submissions should be reversible, ''
                                     @ ''checked, or confirmed'')]) \<rparr>]))\<close>

section \<open>Landmark check (packages/aria/src/index.ts)\<close>

text \<open>
  The two objects \<open>landmarkCounts\<close> and \<open>landmarkLabels\<close> are association lists in
  the order in which the keys were first written. A key that an object inherits from
  \<open>Object.prototype\<close> is read as a function or an object, not as \<open>undefined\<close>: the
  array of labels is then not created and the call of \<open>push\<close> raises a
  \<open>TypeError\<close>.
\<close>

definition Object_prototype_keys :: "string list" where
  "Object_prototype_keys =
     [''constructor'', ''__defineGetter__'', ''__defineSetter__'', ''hasOwnProperty'',
      ''__lookupGetter__'', ''__lookupSetter__'', ''isPrototypeOf'',
      ''propertyIsEnumerable'', ''toString'', ''valueOf'', ''__proto__'',
      ''toLocaleString'']"

text \<open>
  \<open>Object.entries\<close> lists the keys that are array indices first, in ascending order,
  then the other keys in the order of their creation.
\<close>

definition isDigit :: "char \<Rightarrow> bool" where
  "isDigit c = (48 \<le> (of_char c :: nat) \<and> (of_char c :: nat) \<le> 57)"

definition decimalValue :: "string \<Rightarrow> nat" where
  "decimalValue s = foldl (\<lambda>n c. 10 * n + ((of_char c :: nat) - 48)) 0 s"

definition isArrayIndex :: "string \<Rightarrow> bool" where
  "isArrayIndex s =
     (s \<noteq> [] \<and> list_all isDigit s \<and> (if take 1 s = ''0'' then s = ''0'' else True)
      \<and> decimalValue s < 4294967295)"

definition entries :: "(string \<times> 'a) list \<Rightarrow> (string \<times> 'a) list" where
  "entries obj =
     sort_key (\<lambda>p. decimalValue (fst p)) (filter (\<lambda>p. isArrayIndex (fst p)) obj)
     @ filter (\<lambda>p. \<not> isArrayIndex (fst p)) obj"

text \<open>\<open>landmark.label || "(unlabeled)"\<close>: a missing or empty label is the placeholder.\<close>

definition labelOrUnlabeled :: "Landmark \<Rightarrow> string" where
  "labelOrUnlabeled l =
     (case Landmark.label l of
        None \<Rightarrow> ''(unlabeled)''
      | Some s \<Rightarrow> (if s = [] then ''(unlabeled)'' else s))"

text \<open>The first loop; its state is the two objects.\<close>

fun tallyLoop ::
  "Landmark list \<Rightarrow> (string \<times> nat) list \<times> (string \<times> string list) list
     \<Rightarrow> (string \<times> nat) list \<times> (string \<times> string list) list" where
  "tallyLoop [] st = st"
| "tallyLoop (l # ls) (landmarkCounts, landmarkLabels) =
     (let counts1 =
            AList.update (role l)
              ((case map_of landmarkCounts (role l) of Some n \<Rightarrow> n | None \<Rightarrow> 0) + 1)
              landmarkCounts;
          labels1 =
            (if map_of landmarkLabels (role l) = None
             then AList.update (role l) [] landmarkLabels
             else landmarkLabels);
          labels2 =
            AList.update (role l)
              ((case map_of labels1 (role l) of Some xs \<Rightarrow> xs | None \<Rightarrow> [])
               @ [labelOrUnlabeled l])
              labels1
      in tallyLoop ls (counts1, labels2))"

definition nameRoleValue ::
  "CheckStatus \<Rightarrow> jsvalue option \<Rightarrow> jsstring \<Rightarrow> jsstring option \<Rightarrow> CheckResult" where
  "nameRoleValue st v msg rec =
     \<lparr> criterion = ''4.1.2'',
       name = ''Name, Role, Value'',
       level = LevelA,
       status = st,
       value' = v,
       required = None,
       message = msg,
       recommendation = rec \<rparr>"

text \<open>
  The verdict of a role that occurs more than once. The set \<open>uniqueLabels\<close> is the
  list of labels without repetitions; only its size and its members are read.
\<close>

definition roleVerdict :: "string \<Rightarrow> nat \<Rightarrow> string list \<Rightarrow> CheckResult" where
  "roleVerdict r count labels =
     (let uniqueLabels = remdups labels;
          hasUniqueLabels =
            (length uniqueLabels = count \<and> \<not> List.member uniqueLabels ''(unlabeled)'')
      in nameRoleValue (if hasUniqueLabels then Pass else Fail)
           (Some (VStr [Num (real count), Lit ('' '' @ r @ '' landmarks'')]))
           (if hasUniqueLabels
            then [Lit (''Multiple '' @ r @ '' landmarks have unique labels'')]
            else [Lit (''Multiple '' @ r @ '' landmarks lack unique labels: ''
                       @ join '', '' labels)])
           (if hasUniqueLabels then None
            else Some [Lit (''Add unique aria-label or aria-labelledby to distinguish ''
                            @ r @ '' landmarks'')]))"

definition checkLandmarks :: "Landmark list \<Rightarrow> error + CheckResult list" where
  \<open>checkLandmarks landmarks =
     (if list_ex (\<lambda>l. List.member Object_prototype_keys (role l)) landmarks
      then Inl TypeError
      else
        (case tallyLoop landmarks ([], []) of
           (landmarkCounts, landmarkLabels) \<Rightarrow>
             (let results1 =
                    concat (map (\<lambda>(r, count).
                                   if count > 1
                                   then [roleVerdict r count
                                           (case map_of landmarkLabels r of
                                              Some labels \<Rightarrow> labels | None \<Rightarrow> [])]
                                   else [])
                              (entries landmarkCounts));
                  results2 =
                    results1
                    @ (if map_of landmarkCounts ''main'' = None
                       then [nameRoleValue Warning None [Lit ''No main landmark found'']
                               (Some [Lit (''Add role="main" or use <main> element ''
                                           @ ''for primary content'')])]
                       else []);
                  results3 =
                    results2
                    @ (if length results2 = 0 \<and> length landmarks > 0
                       then [nameRoleValue Pass None
                               [Num (real (length landmarks)),
                                Lit '' landmark(s) properly defined''] None]
                       else [])
              in Inr results3)))\<close>

section \<open>Example inputs\<close>

text \<open>
  A colour library for the examples: it knows a grey and white, and reports the contrast
  4.54 for them.
\<close>

definition demo_parse :: "string \<Rightarrow> nat option" where
  "demo_parse s =
     (if s = ''#767676'' then Some 1 else if s = ''#ffffff'' then Some 2 else None)"

definition demo_contrast :: "nat \<Rightarrow> nat \<Rightarrow> real" where
  "demo_contrast fg bg = 4.54"

section \<open>The spec's reading of the heading scan\<close>

text \<open>
  From the spec's words: each heading is compared with its immediate predecessor, and a
  forward jump of more than one level is a skipped-level violation. \<open>spec_skips\<close> are
  the pairs of neighbours with such a jump, in order.
\<close>

definition spec_skips :: "HeadingInput list \<Rightarrow> (HeadingInput \<times> HeadingInput) list" where
  "spec_skips hs =
     filter (\<lambda>(previous, current). HeadingInput.level current - HeadingInput.level previous > 1)
       (zip hs (tl hs))"


definition heading :: "real \<Rightarrow> string \<Rightarrow> HeadingInput" where
  "heading l t =
     \<lparr> HeadingInput.level = l, text' = t, isFirst = None, previousLevel = None \<rparr>"

section \<open>Properties of the contrast check\<close>

lemma aaRequired_le_aaaRequired: "aaRequired large \<le> aaaRequired large"
  by (simp add: aaRequired_def aaaRequired_def contrast_AA_large_def contrast_AA_normal_def
      contrast_AAA_large_def contrast_AAA_normal_def)

lemma checkContrastRatio_parsed:
  assumes "parse foreground = Some fg" and "parse background = Some bg"
  shows "checkContrastRatio parse wcagContrast foreground background sizePx isBold =
           [contrastAA (roundedRatio wcagContrast fg bg) (isLargeText sizePx isBold),
            contrastAAA (roundedRatio wcagContrast fg bg) (isLargeText sizePx isBold)]"
  using assms by (simp add: checkContrastRatio_def Let_def)

lemma status_contrastAA:
  "status (contrastAA ratio large) = (if ratio \<ge> aaRequired large then Pass else Fail)"
  by (simp add: contrastAA_def Let_def)

lemma status_contrastAAA:
  "status (contrastAAA ratio large) =
     (if ratio \<ge> aaaRequired large then Pass
      else if ratio \<ge> aaRequired large then Warning else Fail)"
  by (simp add: contrastAAA_def Let_def)

text \<open>
  Claim C2. When both colours parse, the check returns the AA verdict (1.4.3) followed
  by the AAA verdict (1.4.6). With the rounded contrast as the ratio, and the AAA
  threshold 4.5 for large text and 7 otherwise: if the AA verdict does not pass, the AAA
  status is fail; if the AA verdict passes and the ratio is below the AAA threshold, the
  AAA status is warning; if the ratio reaches the AAA threshold, the AAA status is pass.
\<close>

theorem contrast_aaa_status:
  assumes "parse foreground = Some fg" and "parse background = Some bg"
  shows "\<exists>aa aaa.
           checkContrastRatio parse wcagContrast foreground background sizePx isBold
             = [aa, aaa]
         \<and> criterion aa = ''1.4.3'' \<and> level aa = LevelAA
         \<and> criterion aaa = ''1.4.6'' \<and> level aaa = LevelAAA
         \<and> (status aa \<noteq> Pass \<longrightarrow> status aaa = Fail)
         \<and> (status aa = Pass
              \<and> roundedRatio wcagContrast fg bg
                   < (if isLargeText sizePx isBold then 4.5 else 7)
              \<longrightarrow> status aaa = Warning)
         \<and> (roundedRatio wcagContrast fg bg
               \<ge> (if isLargeText sizePx isBold then 4.5 else 7)
              \<longrightarrow> status aaa = Pass)"
proof -
  let ?r = "roundedRatio wcagContrast fg bg" and ?l = "isLargeText sizePx isBold"
  have thr: "aaaRequired ?l = (if ?l then 4.5 else 7)"
    by (simp add: aaaRequired_def contrast_AAA_large_def contrast_AAA_normal_def)
  have le: "aaRequired ?l \<le> aaaRequired ?l"
    by (rule aaRequired_le_aaaRequired)
  have 1: "status (contrastAA ?r ?l) \<noteq> Pass \<longrightarrow> status (contrastAAA ?r ?l) = Fail"
    using le by (simp add: status_contrastAA status_contrastAAA)
  have 2: "status (contrastAA ?r ?l) = Pass \<and> ?r < (if ?l then 4.5 else 7)
             \<longrightarrow> status (contrastAAA ?r ?l) = Warning"
    unfolding thr [symmetric] by (simp add: status_contrastAA status_contrastAAA)
  have 3: "?r \<ge> (if ?l then 4.5 else 7) \<longrightarrow> status (contrastAAA ?r ?l) = Pass"
    unfolding thr [symmetric] by (simp add: status_contrastAAA)
  have 4: "criterion (contrastAA ?r ?l) = ''1.4.3'' \<and> level (contrastAA ?r ?l) = LevelAA"
    by (simp add: contrastAA_def Let_def)
  have 5: "criterion (contrastAAA ?r ?l) = ''1.4.6''
             \<and> level (contrastAAA ?r ?l) = LevelAAA"
    by (simp add: contrastAAA_def Let_def)
  show ?thesis
    unfolding checkContrastRatio_parsed [OF assms]
    using 1 2 3 4 5 by blast
qed

text \<open>
  An instance: the example library reports the contrast 4.54 for a grey on white, the
  text is 16 pixels and not bold. The AA verdict passes and the AAA verdict is a warning.
\<close>

theorem contrast_aaa_status_witness:
  "demo_parse ''#767676'' = Some 1 \<and> demo_parse ''#ffffff'' = Some 2
   \<and> map status (checkContrastRatio demo_parse demo_contrast ''#767676'' ''#ffffff'' 16 False)
       = [Pass, Warning]"
proof -
  have p1: "demo_parse ''#767676'' = Some 1" and p2: "demo_parse ''#ffffff'' = Some 2"
    by (simp_all add: demo_parse_def)
  have r: "roundedRatio demo_contrast a b = 4.54" for a b
    by (simp add: roundedRatio_def Math_round_def demo_contrast_def)
  have l: "\<not> isLargeText 16 False"
    by (simp add: isLargeText_def largeText_normalPx_def)
  from contrast_aaa_status [where parse = demo_parse and foreground = "''#767676''"
      and background = "''#ffffff''" and fg = 1 and bg = 2
      and wcagContrast = demo_contrast and sizePx = 16 and isBold = False] p1 p2
  obtain aa aaa where
    eq: "checkContrastRatio demo_parse demo_contrast ''#767676'' ''#ffffff'' 16 False
           = [aa, aaa]"
    and w: "status aa = Pass \<and> roundedRatio demo_contrast 1 2
              < (if isLargeText 16 False then 4.5 else 7) \<longrightarrow> status aaa = Warning"
    by blast
  have "aa = contrastAA (roundedRatio demo_contrast 1 2) False"
    using eq checkContrastRatio_parsed [where parse = demo_parse
        and foreground = "''#767676''" and background = "''#ffffff''" and fg = 1 and bg = 2
        and wcagContrast = demo_contrast and sizePx = 16 and isBold = False] p1 p2 l
    by simp
  then have "status aa = Pass"
    by (simp add: status_contrastAA aaRequired_def contrast_AA_normal_def r)
  with w l have "status aaa = Warning" by (simp add: r)
  with \<open>status aa = Pass\<close> eq p1 p2 show ?thesis by simp
qed

text \<open>
  Claim C3. When the foreground or the background does not parse, the check returns one
  verdict and no more: a fail under 1.4.3 (level AA) whose message is "Invalid color: "
  followed by the foreground if that one did not parse, else by the background. The
  check has no other result on such an input: it raises nothing.
\<close>

theorem contrast_invalid_color:
  assumes "parse foreground = None \<or> parse background = None"
  shows "checkContrastRatio parse wcagContrast foreground background sizePx isBold =
           [\<lparr> criterion = ''1.4.3'',
              name = ''Contrast (Minimum)'',
              level = LevelAA,
              status = Fail,
              value' = None,
              required = None,
              message = [Lit (''Invalid color: ''
                              @ (if parse foreground = None then foreground else background))],
              recommendation = None \<rparr>]"
  using assms
  by (auto simp add: checkContrastRatio_def invalidColor_def split: option.splits)

text \<open>An instance: the background "#12" is no colour of the example library.\<close>

theorem contrast_invalid_color_witness:
  "demo_parse ''#12'' = None
   \<and> checkContrastRatio demo_parse demo_contrast ''#ffffff'' ''#12'' 16 False =
           [\<lparr> criterion = ''1.4.3'',
              name = ''Contrast (Minimum)'',
              level = LevelAA,
              status = Fail,
              value' = None,
              required = None,
              message = [Lit ''Invalid color: #12''],
              recommendation = None \<rparr>]"
proof -
  have p: "demo_parse ''#12'' = None" and q: "demo_parse ''#ffffff'' \<noteq> None"
    by (simp_all add: demo_parse_def)
  from p have "demo_parse ''#ffffff'' = None \<or> demo_parse ''#12'' = None" by simp
  from contrast_invalid_color [where parse = demo_parse and foreground = "''#ffffff''"
      and background = "''#12''" and wcagContrast = demo_contrast and sizePx = 16
      and isBold = False] this p q
  show ?thesis by simp
qed

section \<open>Properties of the report builder\<close>

lemma length_by_status:
  "length (filter (\<lambda>r. status r = Pass) V) + length (filter (\<lambda>r. status r = Fail) V)
   + length (filter (\<lambda>r. status r = Warning) V) + length (filter (\<lambda>r. status r = Info) V)
   = length (V :: CheckResult list)"
proof (induction V)
  case Nil
  show ?case by simp
next
  case (Cons r V)
  then show ?case by (cases "status r") simp_all
qed

lemma byLevel_pass_fail:
  "LevelTally.passed (byLevel V l) + LevelTally.failed (byLevel V l)
     = length (filter (\<lambda>r. level r = l \<and> (status r = Pass \<or> status r = Fail)) V)"
proof (induction V)
  case Nil
  show ?case by (simp add: byLevel_def)
next
  case (Cons r V)
  then show ?case by (cases "status r") (auto simp add: byLevel_def)
qed

lemma byLevel_ignores_warning_info:
  "byLevel (filter (\<lambda>r. status r = Pass \<or> status r = Fail) V) l = byLevel V l"
proof -
  have p: "(\<lambda>r. (status r = Pass \<or> status r = Fail) \<and> level r = l \<and> status r = Pass)
          = (\<lambda>r. level r = l \<and> status r = Pass)"
    by auto
  have f: "(\<lambda>r. (status r = Pass \<or> status r = Fail) \<and> level r = l \<and> status r = Fail)
          = (\<lambda>r. level r = l \<and> status r = Fail)"
    by auto
  show ?thesis by (simp add: byLevel_def p f)
qed

lemma summary_createReport:
  "summary (createReport toUpperCase now V options) =
     \<lparr> total = length V,
       passed = length (filter (\<lambda>r. status r = Pass) V),
       failed = length (filter (\<lambda>r. status r = Fail) V),
       warnings = length (filter (\<lambda>r. status r = Warning) V),
       levelA = byLevel V LevelA,
       levelAA = byLevel V LevelAA,
       levelAAA = byLevel V LevelAAA \<rparr>"
  by (simp add: createReport_def Let_def)

text \<open>
  Claim C1. For every list of verdicts \<open>V\<close>, every title and category and every
  clock reading, the summary of \<open>createReport\<close> has \<open>total\<close> equal to the length of
  \<open>V\<close>; \<open>passed + failed + warnings\<close> plus the number of info verdicts is
  \<open>total\<close>; each of the six tallies by level is the number of verdicts of that level
  with that status, pass or fail; and the tallies are those of \<open>V\<close> without its warning
  and info verdicts, which are therefore never counted by level.
\<close>

theorem report_summary_invariant:
  "(let s = summary (createReport toUpperCase now V options);
        decided = filter (\<lambda>r. status r = Pass \<or> status r = Fail) V;
        s' = summary (createReport toUpperCase now decided options)
    in total s = length V
     \<and> passed s + failed s + warnings s + length (filter (\<lambda>r. status r = Info) V) = total s
     \<and> LevelTally.passed (levelA s)
         = length (filter (\<lambda>r. level r = LevelA \<and> status r = Pass) V)
     \<and> LevelTally.failed (levelA s)
         = length (filter (\<lambda>r. level r = LevelA \<and> status r = Fail) V)
     \<and> LevelTally.passed (levelAA s)
         = length (filter (\<lambda>r. level r = LevelAA \<and> status r = Pass) V)
     \<and> LevelTally.failed (levelAA s)
         = length (filter (\<lambda>r. level r = LevelAA \<and> status r = Fail) V)
     \<and> LevelTally.passed (levelAAA s)
         = length (filter (\<lambda>r. level r = LevelAAA \<and> status r = Pass) V)
     \<and> LevelTally.failed (levelAAA s)
         = length (filter (\<lambda>r. level r = LevelAAA \<and> status r = Fail) V)
     \<and> levelA s' = levelA s \<and> levelAA s' = levelAA s \<and> levelAAA s' = levelAAA s)"
  using length_by_status [of V]
  by (simp add: summary_createReport Let_def byLevel_ignores_warning_info)
    (simp add: byLevel_def)





section \<open>Properties of the text spacing check\<close>






section \<open>Properties of the heading structure check\<close>

lemma skipLoop_spec:
  "1 \<le> i \<Longrightarrow>
   skipLoop hs i acc =
     acc @ map (\<lambda>(p, c). skipText p c)
             (filter (\<lambda>(p, c). HeadingInput.level c - HeadingInput.level p > 1)
                (drop (i - 1) (zip hs (tl hs))))"
proof (induction hs i acc rule: skipLoop.induct)
  case (1 hs i acc)
  let ?zs = "zip hs (tl hs)"
  show ?case
  proof (cases "i < length hs")
    case True
    with "1.prems" have lt: "i - 1 < length ?zs" by simp
    have nth: "?zs ! (i - 1) = (hs ! (i - 1), hs ! i)"
      using lt "1.prems" True by (simp add: nth_tl)
    have drop: "drop (i - 1) ?zs = (hs ! (i - 1), hs ! i) # drop i ?zs"
      using Cons_nth_drop_Suc [OF lt] nth "1.prems" by simp
    have ih: "skipLoop hs (i + 1)
                (if HeadingInput.level (hs ! i) - HeadingInput.level (hs ! (i - 1)) > 1
                 then acc @ [skipText (hs ! (i - 1)) (hs ! i)] else acc)
              = (if HeadingInput.level (hs ! i) - HeadingInput.level (hs ! (i - 1)) > 1
                 then acc @ [skipText (hs ! (i - 1)) (hs ! i)] else acc)
                @ map (\<lambda>(p, c). skipText p c)
                    (filter (\<lambda>(p, c). HeadingInput.level c - HeadingInput.level p > 1)
                       (drop i ?zs))"
      using "1.IH" [OF True] by simp
    show ?thesis
      using True ih drop by (subst skipLoop.simps) simp
  next
    case False
    then have "drop (i - 1) ?zs = []" by simp
    with False show ?thesis
      by (subst skipLoop.simps) simp
  qed
qed

lemma skipLoop_spec_skips:
  "skipLoop hs 1 [] = map (\<lambda>(p, c). skipText p c) (spec_skips hs)"
  by (simp add: skipLoop_spec spec_skips_def)

lemma skipLoop_spec_skips_Suc:
  "skipLoop hs (Suc 0) [] = map (\<lambda>(p, c). skipText p c) (spec_skips hs)"
  using skipLoop_spec_skips [of hs] by simp

lemma checkHeadingStructure_nonempty:
  assumes "headings input \<noteq> []"
  shows "checkHeadingStructure input =
     [\<lparr> criterion = ''2.4.6'', name = ''Headings and Labels'', level = LevelAA,
        status = Info, value' = None, required = None,
        message = [Lit ''Page has '', Num (real (length (headings input))),
                   Lit '' heading(s)''],
        recommendation = None \<rparr>]
     @ (let count1 = (case h1Count input of Some n \<Rightarrow> n
                      | None \<Rightarrow> real (length (filter (\<lambda>h. HeadingInput.level h = 1)
                                                   (headings input))))
        in if count1 = 0
           then [infoRelationships Warning None [Lit ''Page lacks h1 heading'']
                   (Some [Lit ''Add a main h1 heading that describes the page content''])]
           else if count1 > 1
           then [infoRelationships Warning (Some (VNum count1))
                   [Lit ''Page has '', Num count1, Lit '' h1 headings'']
                   (Some [Lit (''Consider using single h1 for main content; ''
                               @ ''multiple h1s can confuse navigation'')])]
           else [])
     @ [if spec_skips (headings input) \<noteq> []
        then infoRelationships Warning None
               (Lit ''Heading levels skipped: ''
                # join [Lit ''; ''] (map (\<lambda>(p, c). skipText p c) (spec_skips (headings input))))
               (Some [Lit (''Use heading levels in order (h1, h2, h3...) ''
                           @ ''without skipping levels'')])
        else infoRelationships Pass None [Lit ''Heading levels follow logical sequence''] None]
     @ [\<lparr> criterion = ''2.4.10'', name = ''Section Headings'', level = LevelAAA,
          status = (if length (headings input) \<ge> 2 then Pass else Warning),
          value' = None, required = None,
          message =
            (if length (headings input) \<ge> 2
             then [Lit ''Section headings are used to organize content'']
             else [Lit ''Consider adding more section headings for AAA compliance'']),
          recommendation = None \<rparr>]"
  using assms
  by (simp add: checkHeadingStructure_def Let_def skipLoop_spec_skips_Suc)



text \<open>
  Claim C10. For a non-empty list of headings the first verdict is an info verdict under
  2.4.6, "Headings and Labels", level AA, whose message gives the number of headings; no
  other verdict of the result is an info verdict. The result has three or four verdicts.
  In the summary of a report built from it, \<open>total\<close> counts the info verdict and the
  three status counters do not: they add up to one less than \<open>total\<close>.
\<close>

theorem heading_info_verdict:
  assumes "headings input \<noteq> []"
  shows "\<exists>rest.
           checkHeadingStructure input =
             \<lparr> criterion = ''2.4.6'', name = ''Headings and Labels'', level = LevelAA,
               status = Info, value' = None, required = None,
               message = [Lit ''Page has '', Num (real (length (headings input))),
                          Lit '' heading(s)''],
               recommendation = None \<rparr> # rest
         \<and> filter (\<lambda>v. status v = Info) rest = []
         \<and> 3 \<le> length (checkHeadingStructure input)
         \<and> length (checkHeadingStructure input) \<le> 4
         \<and> total (summary (createReport toUpperCase now (checkHeadingStructure input) options))
             = length (checkHeadingStructure input)
         \<and> passed (summary (createReport toUpperCase now (checkHeadingStructure input) options))
           + failed (summary (createReport toUpperCase now (checkHeadingStructure input) options))
           + warnings (summary (createReport toUpperCase now (checkHeadingStructure input) options))
           + 1
             = total (summary (createReport toUpperCase now (checkHeadingStructure input) options))"
proof -
  let ?rs = "checkHeadingStructure input"
  let ?info = "\<lparr> criterion = ''2.4.6'', name = ''Headings and Labels'', level = LevelAA,
               status = Info, value' = None, required = None,
               message = [Lit ''Page has '', Num (real (length (headings input))),
                          Lit '' heading(s)''],
               recommendation = None \<rparr>"
  obtain rest where rs: "?rs = ?info # rest"
    unfolding checkHeadingStructure_nonempty [OF assms] by simp
  have noinfo: "filter (\<lambda>v. status v = Info) rest = []"
    using rs unfolding checkHeadingStructure_nonempty [OF assms]
    by (auto simp add: infoRelationships_def Let_def split: if_splits)
  have len: "3 \<le> length ?rs \<and> length ?rs \<le> 4"
    unfolding checkHeadingStructure_nonempty [OF assms]
    by (simp add: Let_def)
  have infos: "length (filter (\<lambda>v. status v = Info) ?rs) = 1"
    unfolding rs using noinfo by simp
  have tot: "total (summary (createReport toUpperCase now ?rs options)) = length ?rs"
    by (simp add: summary_createReport)
  have sum: "passed (summary (createReport toUpperCase now ?rs options))
           + failed (summary (createReport toUpperCase now ?rs options))
           + warnings (summary (createReport toUpperCase now ?rs options)) + 1
             = total (summary (createReport toUpperCase now ?rs options))"
    using length_by_status [of ?rs] infos by (simp add: summary_createReport)
  from rs noinfo len tot sum show ?thesis by blast
qed

text \<open>An instance: a single heading of level 2.\<close>

theorem heading_info_verdict_witness:
  "headings \<lparr> headings = [heading 2 ''Only''], hasH1 = None, h1Count = None \<rparr> \<noteq> []
   \<and> map status (checkHeadingStructure
                   \<lparr> headings = [heading 2 ''Only''], hasH1 = None, h1Count = None \<rparr>)
       = [Info, Warning, Pass, Warning]
   \<and> total (summary (createReport (\<lambda>s. s) ''2026-01-01T00:00:00.000Z''
               (checkHeadingStructure
                  \<lparr> headings = [heading 2 ''Only''], hasH1 = None, h1Count = None \<rparr>)
               None)) = 4
   \<and> warnings (summary (createReport (\<lambda>s. s) ''2026-01-01T00:00:00.000Z''
               (checkHeadingStructure
                  \<lparr> headings = [heading 2 ''Only''], hasH1 = None, h1Count = None \<rparr>)
               None)) = 2"
proof -
  let ?inp = "\<lparr> headings = [heading 2 ''Only''], hasH1 = None, h1Count = None \<rparr>"
  have ne: "headings ?inp \<noteq> []" by simp
  have st: "map status (checkHeadingStructure ?inp) = [Info, Warning, Pass, Warning]"
    unfolding checkHeadingStructure_nonempty [OF ne]
    by (simp add: heading_def spec_skips_def infoRelationships_def)
  from heading_info_verdict [OF ne, of "\<lambda>s. s" "''2026-01-01T00:00:00.000Z''" None]
  have tot: "total (summary (createReport (\<lambda>s. s) ''2026-01-01T00:00:00.000Z''
               (checkHeadingStructure ?inp) None)) = length (checkHeadingStructure ?inp)"
    by blast
  have len: "length (checkHeadingStructure ?inp) = 4"
    using arg_cong [OF st, of length] by simp
  have w: "warnings (summary (createReport (\<lambda>s. s) ''2026-01-01T00:00:00.000Z''
               (checkHeadingStructure ?inp) None))
           = length (filter (\<lambda>s. s = Warning) (map status (checkHeadingStructure ?inp)))"
    by (simp add: summary_createReport filter_map comp_def)
  from ne st tot len w show ?thesis by simp
qed

section \<open>Properties of the flashing check\<close>

lemma checkFlashing_present:
  assumes "hasFlashing input"
  shows "\<exists>a b rest. checkFlashing input = a # b # rest
           \<and> criterion a = ''2.3.1'' \<and> level a = LevelA
           \<and> status a = (if (case flashesPerSecond input of Some n \<Rightarrow> n | None \<Rightarrow> 0) \<le> 3
                              \<or> isBelowThreshold input = Some True
                           then Pass else Fail)
           \<and> criterion b = ''2.3.2'' \<and> level b = LevelAAA
           \<and> status b = (if (case flashesPerSecond input of Some n \<Rightarrow> n | None \<Rightarrow> 0) = 0
                           then Pass else Warning)"
  using assms by (simp add: checkFlashing_def Let_def threeFlashes_def)

text \<open>
  Claim C8 as stated fails. With three flashes per second the verdict under 2.3.1 is at
  level A, not AA: the result has the levels A and AAA only. With four flashes per
  second and the flashing flagged as below the threshold, the verdict under 2.3.1 passes.
\<close>

theorem flashing_level_counterexample:
  "map level (checkFlashing \<lparr> hasFlashing = True, flashesPerSecond = Some 3,
                              flashAreaPercent = None, isBelowThreshold = None \<rparr>)
     = [LevelA, LevelAAA]
   \<and> map criterion (checkFlashing \<lparr> hasFlashing = True, flashesPerSecond = Some 3,
                              flashAreaPercent = None, isBelowThreshold = None \<rparr>)
     = [''2.3.1'', ''2.3.2'']
   \<and> map status (checkFlashing \<lparr> hasFlashing = True, flashesPerSecond = Some 4,
                              flashAreaPercent = None, isBelowThreshold = Some True \<rparr>)
     = [Pass, Warning]"
  by (simp add: checkFlashing_def Let_def threeFlashes_def)

text \<open>
  Claim C8, amended. With flashing content present the first verdict is under 2.3.1 at
  level A and the second under 2.3.2 at level AAA. Three flashes per second give a pass
  under 2.3.1: the bound is inclusive. Four flashes per second, when the flashing is not
  flagged as below the threshold, give a fail under 2.3.1 and a warning under 2.3.2.
\<close>

theorem flashing_thresholds:
  assumes "hasFlashing input"
  shows "\<exists>a b rest. checkFlashing input = a # b # rest
           \<and> criterion a = ''2.3.1'' \<and> level a = LevelA
           \<and> criterion b = ''2.3.2'' \<and> level b = LevelAAA
           \<and> (flashesPerSecond input = Some 3 \<longrightarrow> status a = Pass)
           \<and> (flashesPerSecond input = Some 4 \<and> isBelowThreshold input \<noteq> Some True
                \<longrightarrow> status a = Fail \<and> status b = Warning)"
proof -
  from checkFlashing_present [OF assms] obtain a b rest where
    eq: "checkFlashing input = a # b # rest"
    and a: "criterion a = ''2.3.1''" "level a = LevelA"
    and sa: "status a = (if (case flashesPerSecond input of Some n \<Rightarrow> n | None \<Rightarrow> 0) \<le> 3
                              \<or> isBelowThreshold input = Some True
                           then Pass else Fail)"
    and b: "criterion b = ''2.3.2''" "level b = LevelAAA"
    and sb: "status b = (if (case flashesPerSecond input of Some n \<Rightarrow> n | None \<Rightarrow> 0) = 0
                           then Pass else Warning)"
    by blast
  have 3: "flashesPerSecond input = Some 3 \<longrightarrow> status a = Pass"
    using sa by simp
  have 4: "flashesPerSecond input = Some 4 \<and> isBelowThreshold input \<noteq> Some True
             \<longrightarrow> status a = Fail \<and> status b = Warning"
    using sa sb by simp
  from eq a b 3 4 show ?thesis by blast
qed

text \<open>Two instances: three and four flashes per second, no other field set.\<close>

theorem flashing_thresholds_witness:
  "map status (checkFlashing \<lparr> hasFlashing = True, flashesPerSecond = Some 3,
                               flashAreaPercent = None, isBelowThreshold = None \<rparr>)
     = [Pass, Warning]
   \<and> map status (checkFlashing \<lparr> hasFlashing = True, flashesPerSecond = Some 4,
                               flashAreaPercent = None, isBelowThreshold = None \<rparr>)
     = [Fail, Warning]"
proof -
  let ?i3 = "\<lparr> hasFlashing = True, flashesPerSecond = Some 3,
               flashAreaPercent = None, isBelowThreshold = None \<rparr>"
  let ?i4 = "\<lparr> hasFlashing = True, flashesPerSecond = Some 4,
               flashAreaPercent = None, isBelowThreshold = None \<rparr>"
  have h3: "hasFlashing ?i3" and h4: "hasFlashing ?i4" by simp_all
  have n3: "length (checkFlashing ?i3) = 2" and n4: "length (checkFlashing ?i4) = 2"
    by (simp_all add: checkFlashing_def Let_def)
  from flashing_thresholds [OF h3] obtain a b rest where
    e3: "checkFlashing ?i3 = a # b # rest" and "status a = Pass"
    by auto
  moreover have "status b = Warning"
    using e3 by (auto simp add: checkFlashing_def Let_def)
  ultimately have 3: "map status (checkFlashing ?i3) = [Pass, Warning]"
    using n3 by simp
  from flashing_thresholds [OF h4] obtain c d rest' where
    e4: "checkFlashing ?i4 = c # d # rest'" and "status c = Fail" "status d = Warning"
    by auto
  then have 4: "map status (checkFlashing ?i4) = [Fail, Warning]"
    using n4 by simp
  from 3 4 show ?thesis by simp
qed

section \<open>Properties of the error prevention check\<close>

text \<open>
  Claim C4 says that every form submission gets a verdict under 3.3.6, at level AAA,
  whatever its transaction type. The code returns before it reaches that verdict when
  the transaction type is not legal, financial or data-modification: for the type
  \<open>other\<close> with none of the four measures in place the result is one info verdict
  under 3.3.4 and nothing under 3.3.6.
\<close>

theorem error_prevention_other:
  \<open>checkErrorPrevention
     \<lparr> transactionType = Other, isReversible = Some False, dataIsChecked = Some False,
       canReview = Some False, requiresConfirmation = Some False \<rparr>
   = [\<lparr> criterion = ''3.3.4'',
        name = ''Error Prevention (Legal, Financial, Data)'',
        level = LevelAA,
        status = Info,
        value' = None,
        required = None,
        message = [Lit ''Transaction type "other" may not require error prevention measures''],
        recommendation = None \<rparr>]\<close>
  by (simp add: checkErrorPrevention_def errorPreventionAA_def transactionTypeName_def)

text \<open>
  The two branches of the check in general: the three high-stakes types get the verdicts
  under 3.3.4 and 3.3.6, the types \<open>test\<close> and \<open>other\<close> get the info verdict alone.
\<close>

lemma error_prevention_high_stakes:
  "transactionType input \<in> {Legal, Financial, DataModification} \<Longrightarrow>
   map (\<lambda>v. (criterion v, level v, status v)) (checkErrorPrevention input) =
     (let hasPrevention = (isReversible input = Some True \<or> dataIsChecked input = Some True
                           \<or> canReview input = Some True
                           \<or> requiresConfirmation input = Some True)
      in [(''3.3.4'', LevelAA, if hasPrevention then Pass else Fail),
          (''3.3.6'', LevelAAA, if hasPrevention then Pass else Warning)])"
  by (auto simp add: checkErrorPrevention_def errorPreventionAA_def transactionTypeName_def
      jsOr_def Let_def)

lemma error_prevention_low_stakes:
  "transactionType input \<in> {Test, Other} \<Longrightarrow>
   map (\<lambda>v. (criterion v, level v, status v)) (checkErrorPrevention input) =
     [(''3.3.4'', LevelAA, Info)]"
  by (auto simp add: checkErrorPrevention_def errorPreventionAA_def transactionTypeName_def)

section \<open>Properties of the landmark check\<close>

text \<open>
  The verdict of a role passes exactly when its labels, after the placeholder has
  replaced the missing and the empty ones, are distinct and none is the placeholder.
\<close>

lemma roleVerdict_status:
  "status (roleVerdict r (length labels) labels) = Pass
     \<longleftrightarrow> distinct labels \<and> ''(unlabeled)'' \<notin> set labels"
proof -
  have "length (remdups labels) = length labels \<longleftrightarrow> distinct labels"
    by (metis distinct_remdups length_remdups_eq remdups_id_iff_distinct)
  then show ?thesis
    by (simp add: roleVerdict_def nameRoleValue_def Let_def)
qed

text \<open>
  Claim C7 says that the verdict of a repeated role passes exactly when its labels are
  distinct and not empty. The code takes a label that is the text "(unlabeled)" for a
  missing one: two navigation landmarks labelled "(unlabeled)" and "Main Nav" carry
  distinct, non-empty labels and get a fail.
\<close>

theorem landmarks_placeholder_label:
  \<open>checkLandmarks
     [\<lparr> role = ''navigation'', label = Some ''(unlabeled)'' \<rparr>,
      \<lparr> role = ''navigation'', label = Some ''Main Nav'' \<rparr>]
   = Inr [nameRoleValue Fail (Some (VStr [Num 2, Lit '' navigation landmarks'']))
            [Lit ''Multiple navigation landmarks lack unique labels: (unlabeled), Main Nav'']
            (Some [Lit ''Add unique aria-label or aria-labelledby to distinguish navigation landmarks'']),
          nameRoleValue Warning None [Lit ''No main landmark found'']
            (Some [Lit ''Add role="main" or use <main> element for primary content''])]\<close>
  by (simp add: checkLandmarks_def Object_prototype_keys_def
      labelOrUnlabeled_def entries_def isArrayIndex_def isDigit_def roleVerdict_def Let_def)

text \<open>The two examples of the claim: the same label twice fails, two labels pass.\<close>

lemma landmarks_same_label:
  \<open>checkLandmarks
     [\<lparr> role = ''navigation'', label = Some ''Main Nav'' \<rparr>,
      \<lparr> role = ''navigation'', label = Some ''Main Nav'' \<rparr>]
   = Inr [nameRoleValue Fail (Some (VStr [Num 2, Lit '' navigation landmarks'']))
            [Lit ''Multiple navigation landmarks lack unique labels: Main Nav, Main Nav'']
            (Some [Lit ''Add unique aria-label or aria-labelledby to distinguish navigation landmarks'']),
          nameRoleValue Warning None [Lit ''No main landmark found'']
            (Some [Lit ''Add role="main" or use <main> element for primary content''])]\<close>
  by (simp add: checkLandmarks_def Object_prototype_keys_def
      labelOrUnlabeled_def entries_def isArrayIndex_def isDigit_def roleVerdict_def Let_def)

lemma landmarks_distinct_labels:
  \<open>checkLandmarks
     [\<lparr> role = ''navigation'', label = Some ''Main Nav'' \<rparr>,
      \<lparr> role = ''navigation'', label = Some ''Footer Nav'' \<rparr>]
   = Inr [nameRoleValue Pass (Some (VStr [Num 2, Lit '' navigation landmarks'']))
            [Lit ''Multiple navigation landmarks have unique labels''] None,
          nameRoleValue Warning None [Lit ''No main landmark found'']
            (Some [Lit ''Add role="main" or use <main> element for primary content''])]\<close>
  by (simp add: checkLandmarks_def Object_prototype_keys_def
      labelOrUnlabeled_def entries_def isArrayIndex_def isDigit_def roleVerdict_def Let_def)

end
